theory Spec2Isabelle
  imports Complex_Main
begin

section \<open>Data model: the tables of the repair-shop database\<close>

text \<open>
  The tables follow the schema (\<^verbatim>\<open>CREATE TABLE\<close> statements) and keep only the
  columns the inventory and billing handlers read or write. Quantities are
  \<^verbatim>\<open>INTEGER\<close> columns and are modelled as \<^typ>\<open>int\<close>; there is no
  \<^verbatim>\<open>CHECK (quantity >= 0)\<close> in the schema. Prices and amounts are JavaScript
  double-precision numbers; the rows carry them as rationals, and no handler of this
  theory computes with them on a path that reaches the database, so no statement below
  depends on the result of an arithmetic operation on amounts. A table is the list of its
  rows in rowid order.
\<close>

record part =
  p_id :: int
  p_quantity :: int
  p_repair_price :: rat
  p_sealing_price :: rat

record accessory =
  a_id :: int
  a_quantity :: int
  a_price :: rat

record repair =
  r_id :: int
  r_customer_id :: int
  r_status :: string

record repair_part =
  rp_id :: int
  rp_repair_id :: int
  rp_part_id :: int
  rp_quantity_used :: int
  rp_pricing_mode :: string
  rp_unit_price :: rat
  rp_total_price :: rat
  rp_created_at :: nat

record accessory_sale =
  s_id :: int
  s_accessory_id :: int
  s_quantity_sold :: int
  s_unit_price :: rat
  s_total_price :: rat
  s_sold_by :: int

record bill =
  b_id :: int
  b_repair_id :: "int option"
  b_customer_id :: int
  b_bill_number :: string
  b_subtotal :: rat
  b_tax_amount :: rat
  b_total_amount :: rat
  b_payment_status :: string
  b_payment_method :: "string option"
  b_created_by :: int

record bill_item =
  bi_bill_id :: int
  bi_item_type :: string
  bi_item_id :: int
  bi_quantity :: int
  bi_unit_price :: rat
  bi_total_price :: rat
  bi_pricing_mode :: "string option"

record db =
  parts :: "part list"
  accessories :: "accessory list"
  customers :: "int list"
  repairs :: "repair list"
  repair_parts :: "repair_part list"
  accessory_sales :: "accessory_sale list"
  bills :: "bill list"
  bill_items :: "bill_item list"

section \<open>Requests and responses\<close>

text \<open>
  A request carries the path parameters (\<^verbatim>\<open>request.params\<close>), the claims of the
  authenticated user (\<^verbatim>\<open>request.user\<close>, with \<^verbatim>\<open>id\<close> and \<^verbatim>\<open>role\<close>) and the
  parsed JSON body. \<^verbatim>\<open>request.params\<close> is \<open>None\<close> when the property is undefined,
  in which case reading \<^verbatim>\<open>request.params.id\<close> throws; inside a parameter object a
  missing name reads as undefined, again \<open>None\<close>. A body field that is absent is
  \<open>None\<close>. Parameter values are the integers the database compares a key column with.
\<close>

record user_claims =
  u_id :: int
  u_role :: string

record cart_line =
  accessory_id :: int
  cl_quantity :: int

record body =
  quantity :: "int option"
  operation :: "string option"
  unit_price :: "rat option"
  part_id :: "int option"
  quantity_used :: "int option"
  pricing_mode :: "string option"
  tax_rate :: "rat option"
  payment_method :: "string option"
  customer_id :: "int option"
  items :: "cart_line list option"

record request =
  params :: "(string \<times> int) list option"
  user :: "user_claims option"
  json :: body

datatype response = Response (status: nat) (message: string)

definition createError :: "string \<Rightarrow> nat \<Rightarrow> response" where
  "createError msg st = Response st msg"

definition createSuccess :: "string \<Rightarrow> response" where
  "createSuccess msg = Response 200 msg"

section \<open>The database engine\<close>

text \<open>
  The database is Cloudflare D1 (the README, the \<^verbatim>\<open>AUTOINCREMENT\<close> schema and the calls
  \<^verbatim>\<open>env.DB.prepare(...).bind(...).run()\<close>), which runs SQLite. Three of its properties
  decide what the handlers do; each of them makes a call throw inside the outer
  \<^verbatim>\<open>try\<close> of the handler, whose \<^verbatim>\<open>catch\<close> answers with status 500 and the handler's
  ``Failed to ...'' message:
  \<^item> \<^verbatim>\<open>prepare('BEGIN TRANSACTION').run()\<close> is refused, so a handler that opens a
    transaction stops there, before any of the writes that follow in the source; those
    statements are never reached and are not part of the definitions below;
  \<^item> SQLite has no function \<^verbatim>\<open>GREATEST\<close>, so the \<^verbatim>\<open>UPDATE\<close> of the subtract
    operation fails;
  \<^item> \<^verbatim>\<open>bind\<close> refuses the value undefined.
\<close>

section \<open>Queries\<close>

text \<open>
  \<^verbatim>\<open>SELECT ... WHERE id = ?\<close> followed by \<^verbatim>\<open>first()\<close>. The key is the optional
  value a column is compared with; the handlers reach a query with defined keys only.
\<close>

definition select_accessory :: "int option \<Rightarrow> db \<Rightarrow> accessory option" where
  "select_accessory k d = find (\<lambda>a. Some (a_id a) = k) (accessories d)"

definition select_part :: "int option \<Rightarrow> db \<Rightarrow> part option" where
  "select_part k d = find (\<lambda>p. Some (p_id p) = k) (parts d)"

definition select_repair :: "int option \<Rightarrow> db \<Rightarrow> repair option" where
  "select_repair k d = find (\<lambda>r. Some (r_id r) = k) (repairs d)"

text \<open>\<^verbatim>\<open>UPDATE accessories SET quantity = f(quantity) WHERE id = ?\<close>, and the same for parts.\<close>

definition update_accessory_quantity :: "(int \<Rightarrow> int) \<Rightarrow> int option \<Rightarrow> db \<Rightarrow> db" where
  "update_accessory_quantity f k d =
     d\<lparr>accessories :=
          map (\<lambda>a. if Some (a_id a) = k then a\<lparr>a_quantity := f (a_quantity a)\<rparr> else a)
            (accessories d)\<rparr>"

definition update_part_quantity :: "(int \<Rightarrow> int) \<Rightarrow> int option \<Rightarrow> db \<Rightarrow> db" where
  "update_part_quantity f k d =
     d\<lparr>parts :=
          map (\<lambda>p. if Some (p_id p) = k then p\<lparr>p_quantity := f (p_quantity p)\<rparr> else p)
            (parts d)\<rparr>"

section \<open>Administrative quantity adjustment\<close>

text \<open>
  \<^verbatim>\<open>PATCH /accessories/:id/quantity\<close> and \<^verbatim>\<open>PATCH /parts/:id/quantity\<close>.
  \<^verbatim>\<open>!quantity\<close> rejects an absent quantity and the number zero, \<^verbatim>\<open>!operation\<close>
  an absent or empty string; the sign of the quantity is not checked. The statement is
  run outside any transaction. For \<open>add\<close> and \<open>set\<close> the update runs and the row is
  read back, so a missing row is reported after an update that changed nothing. For
  \<open>subtract\<close> the statement is
  \<^verbatim>\<open>UPDATE ... SET quantity = GREATEST(0, quantity - ?)\<close>, which the engine refuses.
\<close>

definition patch_accessories_quantity :: "request \<Rightarrow> db \<Rightarrow> response \<times> db" where
  "patch_accessories_quantity request d =
     (case params request of
        None \<Rightarrow> (createError ''Failed to update accessory quantity'' 500, d)
      | Some ps \<Rightarrow>
          let accessoryId = map_of ps ''id'' in
          (case quantity (json request) of
             None \<Rightarrow> (createError ''Quantity and operation are required'' 400, d)
           | Some q \<Rightarrow>
               (case operation (json request) of
                  None \<Rightarrow> (createError ''Quantity and operation are required'' 400, d)
                | Some opn \<Rightarrow>
                    if q = 0 \<or> opn = [] then
                      (createError ''Quantity and operation are required'' 400, d)
                    else if opn \<noteq> ''add'' \<and> opn \<noteq> ''subtract'' \<and> opn \<noteq> ''set'' then
                      (createError ''Invalid operation. Use: add, subtract, or set'' 400, d)
                    else
                      (case accessoryId of
                         None \<Rightarrow> (createError ''Failed to update accessory quantity'' 500, d)
                       | Some k \<Rightarrow>
                           if opn = ''subtract'' then
                             (createError ''Failed to update accessory quantity'' 500, d)
                           else
                             let d' = (if opn = ''add'' then
                                         update_accessory_quantity (\<lambda>x. x + q) (Some k) d
                                       else
                                         update_accessory_quantity (\<lambda>x. q) (Some k) d)
                             in (case select_accessory (Some k) d' of
                                   None \<Rightarrow> (createError ''Accessory not found'' 404, d')
                                 | Some a \<Rightarrow>
                                     (createSuccess ''Accessory quantity updated successfully'',
                                      d'))))))"

definition patch_parts_quantity :: "request \<Rightarrow> db \<Rightarrow> response \<times> db" where
  "patch_parts_quantity request d =
     (case params request of
        None \<Rightarrow> (createError ''Failed to update part quantity'' 500, d)
      | Some ps \<Rightarrow>
          let partId = map_of ps ''id'' in
          (case quantity (json request) of
             None \<Rightarrow> (createError ''Quantity and operation are required'' 400, d)
           | Some q \<Rightarrow>
               (case operation (json request) of
                  None \<Rightarrow> (createError ''Quantity and operation are required'' 400, d)
                | Some opn \<Rightarrow>
                    if q = 0 \<or> opn = [] then
                      (createError ''Quantity and operation are required'' 400, d)
                    else if opn \<noteq> ''add'' \<and> opn \<noteq> ''subtract'' \<and> opn \<noteq> ''set'' then
                      (createError ''Invalid operation. Use: add, subtract, or set'' 400, d)
                    else
                      (case partId of
                         None \<Rightarrow> (createError ''Failed to update part quantity'' 500, d)
                       | Some k \<Rightarrow>
                           if opn = ''subtract'' then
                             (createError ''Failed to update part quantity'' 500, d)
                           else
                             let d' = (if opn = ''add'' then
                                         update_part_quantity (\<lambda>x. x + q) (Some k) d
                                       else
                                         update_part_quantity (\<lambda>x. q) (Some k) d)
                             in (case select_part (Some k) d' of
                                   None \<Rightarrow> (createError ''Part not found'' 404, d')
                                 | Some p \<Rightarrow>
                                     (createSuccess ''Part quantity updated successfully'',
                                      d'))))))"

section \<open>Accessory sale\<close>

text \<open>
  \<^verbatim>\<open>POST /accessories/:id/sell\<close>. The validation
  \<^verbatim>\<open>!quantity || !unit_price || quantity <= 0\<close> rejects an absent or zero quantity, an
  absent or zero unit price, and a negative quantity. After the accessory has been found
  with enough stock the handler runs \<^verbatim>\<open>BEGIN TRANSACTION\<close>, which the engine refuses:
  the insert of the sale and the debit are never reached.
\<close>

definition post_accessories_sell :: "request \<Rightarrow> db \<Rightarrow> response \<times> db" where
  "post_accessories_sell request d =
     (case params request of
        None \<Rightarrow> (createError ''Failed to sell accessory'' 500, d)
      | Some ps \<Rightarrow>
          let accessoryId = map_of ps ''id'' in
          (case quantity (json request) of
             None \<Rightarrow> (createError ''Valid quantity and unit price are required'' 400, d)
           | Some q \<Rightarrow>
               (case unit_price (json request) of
                  None \<Rightarrow> (createError ''Valid quantity and unit price are required'' 400, d)
                | Some up \<Rightarrow>
                    if q = 0 \<or> up = 0 \<or> q \<le> 0 then
                      (createError ''Valid quantity and unit price are required'' 400, d)
                    else
                      (case accessoryId of
                         None \<Rightarrow> (createError ''Failed to sell accessory'' 500, d)
                       | Some k \<Rightarrow>
                           (case select_accessory (Some k) d of
                              None \<Rightarrow> (createError ''Accessory not found'' 404, d)
                            | Some a \<Rightarrow>
                                if a_quantity a < q then
                                  (createError ''Insufficient stock'' 400, d)
                                else
                                  (createError ''Failed to sell accessory'' 500, d))))))"

section \<open>Parts consumed by a repair\<close>

text \<open>
  \<^verbatim>\<open>POST /repairs/:id/parts\<close>. \<^verbatim>\<open>!part_id || !quantity_used || !pricing_mode\<close>
  rejects absent fields, a zero part id, a zero quantity and an empty mode; the sign of
  the quantity is not checked. After the repair and the part have been found and the stock
  suffices, the unit price of the mode is read from the part row and the handler runs
  \<^verbatim>\<open>BEGIN TRANSACTION\<close>, which the engine refuses: the insert of the usage and the debit
  are never reached.
\<close>

definition post_repairs_parts :: "request \<Rightarrow> db \<Rightarrow> response \<times> db" where
  "post_repairs_parts request d =
     (case params request of
        None \<Rightarrow> (createError ''Failed to add part to repair'' 500, d)
      | Some ps \<Rightarrow>
          let repairId = map_of ps ''id'' in
          (case part_id (json request) of
             None \<Rightarrow> (createError ''Part ID, quantity used, and pricing mode are required'' 400, d)
           | Some pid \<Rightarrow>
          (case quantity_used (json request) of
             None \<Rightarrow> (createError ''Part ID, quantity used, and pricing mode are required'' 400, d)
           | Some n \<Rightarrow>
          (case pricing_mode (json request) of
             None \<Rightarrow> (createError ''Part ID, quantity used, and pricing mode are required'' 400, d)
           | Some mode \<Rightarrow>
               if pid = 0 \<or> n = 0 \<or> mode = [] then
                 (createError ''Part ID, quantity used, and pricing mode are required'' 400, d)
               else if mode \<noteq> ''repair'' \<and> mode \<noteq> ''seal'' then
                 (createError ''Invalid pricing mode. Use: repair or seal'' 400, d)
               else
                 (case repairId of
                    None \<Rightarrow> (createError ''Failed to add part to repair'' 500, d)
                  | Some rid \<Rightarrow>
                      (case select_repair (Some rid) d of
                         None \<Rightarrow> (createError ''Repair not found'' 404, d)
                       | Some r \<Rightarrow>
                           (case select_part (Some pid) d of
                              None \<Rightarrow> (createError ''Part not found'' 404, d)
                            | Some p \<Rightarrow>
                                if p_quantity p < n then
                                  (createError ''Insufficient part stock'' 400, d)
                                else
                                  (createError ''Failed to add part to repair'' 500, d))))))))"

text \<open>
  \<^verbatim>\<open>ORDER BY created_at DESC LIMIT 1\<close>: a row with the greatest timestamp. The
  timestamps are \<^verbatim>\<open>CURRENT_TIMESTAMP\<close> values with a resolution of one second; among
  rows with equal timestamps the first in table order is returned.
\<close>

fun most_recent :: "repair_part list \<Rightarrow> repair_part option" where
  "most_recent [] = None"
| "most_recent (u # us) =
     (case most_recent us of
        None \<Rightarrow> Some u
      | Some v \<Rightarrow> if rp_created_at u < rp_created_at v then Some v else Some u)"

definition usage_matches :: "int option \<Rightarrow> int option \<Rightarrow> repair_part \<Rightarrow> bool" where
  "usage_matches repairId partId u =
     (Some (rp_repair_id u) = repairId \<and> Some (rp_part_id u) = partId)"

text \<open>
  \<^verbatim>\<open>DELETE /repairs/:id/parts/:part_id\<close>. The usage is selected first; when there is
  one the handler runs \<^verbatim>\<open>BEGIN TRANSACTION\<close>, which the engine refuses: the delete of
  the usage and the credit are never reached.
\<close>

definition delete_repairs_parts :: "request \<Rightarrow> db \<Rightarrow> response \<times> db" where
  "delete_repairs_parts request d =
     (case params request of
        None \<Rightarrow> (createError ''Failed to remove part from repair'' 500, d)
      | Some ps \<Rightarrow>
          (case map_of ps ''id'' of
             None \<Rightarrow> (createError ''Failed to remove part from repair'' 500, d)
           | Some repairId \<Rightarrow>
               (case map_of ps ''part_id'' of
                  None \<Rightarrow> (createError ''Failed to remove part from repair'' 500, d)
                | Some partId \<Rightarrow>
                    (case most_recent
                            (filter (usage_matches (Some repairId) (Some partId))
                               (repair_parts d)) of
                       None \<Rightarrow> (createError ''Part not found in repair'' 404, d)
                     | Some repairPart \<Rightarrow>
                         (createError ''Failed to remove part from repair'' 500, d)))))"

section \<open>Bills\<close>

text \<open>
  The repair is selected through \<^verbatim>\<open>JOIN customers\<close> and the usages through
  \<^verbatim>\<open>JOIN parts\<close>: a repair whose customer row is gone is not found, and a usage whose
  part row is gone is not listed. Primary keys are unique, so a join yields each row at most once.
\<close>

definition bill_of_repair :: "int option \<Rightarrow> bill \<Rightarrow> bool" where
  "bill_of_repair repairId b = (repairId \<noteq> None \<and> b_repair_id b = repairId)"

definition select_repair_with_customer :: "int option \<Rightarrow> db \<Rightarrow> repair option" where
  "select_repair_with_customer k d =
     find (\<lambda>r. Some (r_id r) = k \<and> r_customer_id r \<in> set (customers d)) (repairs d)"

definition select_repair_parts :: "int option \<Rightarrow> db \<Rightarrow> repair_part list" where
  "select_repair_parts k d =
     filter (\<lambda>u. Some (rp_repair_id u) = k \<and> rp_part_id u \<in> set (map p_id (parts d)))
       (repair_parts d)"

text \<open>
  \<^verbatim>\<open>POST /bills/from-repair/:repair_id\<close>. The handler reads the repair id from
  \<^verbatim>\<open>request.params.id\<close> and binds it to the first query. The bill number is built
  from \<^verbatim>\<open>Date.now()\<close> and \<^verbatim>\<open>Math.random()\<close>; the model receives it as an argument.
  After the checks the handler sums the total prices of the usages, derives tax and total
  in double arithmetic and runs \<^verbatim>\<open>BEGIN TRANSACTION\<close>, which the engine refuses: the
  inserts of the bill and of its items are never reached, and the amounts are not used.
\<close>

definition post_bills_from_repair :: "string \<Rightarrow> request \<Rightarrow> db \<Rightarrow> response \<times> db" where
  "post_bills_from_repair billNumber request d =
     (case params request of
        None \<Rightarrow> (createError ''Failed to generate bill'' 500, d)
      | Some ps \<Rightarrow>
          (case map_of ps ''id'' of
             None \<Rightarrow> (createError ''Failed to generate bill'' 500, d)
           | Some repairId \<Rightarrow>
               (case select_repair_with_customer (Some repairId) d of
                  None \<Rightarrow> (createError ''Repair not found'' 404, d)
                | Some r \<Rightarrow>
                    if r_status r \<noteq> ''completed'' then
                      (createError ''Cannot generate bill for incomplete repair'' 400, d)
                    else
                      (case find (bill_of_repair (Some repairId)) (bills d) of
                         Some existingBill \<Rightarrow>
                           (createError ''Bill already exists for this repair'' 400, d)
                       | None \<Rightarrow>
                           let repairParts = select_repair_parts (Some repairId) d in
                           if length repairParts = 0 then
                             (createError ''No parts found for this repair'' 400, d)
                           else
                             (createError ''Failed to generate bill'' 500, d)))))"

text \<open>
  \<^verbatim>\<open>POST /bills/accessories\<close>. The first loop checks every line of the cart against
  the stock as it is before any write. Its two error messages carry the accessory id and
  name; the model leaves the interpolated value out. The second loop reads the price of
  every accessory of the cart, which the first loop has found, and sums the line totals in
  double arithmetic. Then the handler runs \<^verbatim>\<open>BEGIN TRANSACTION\<close>, which the engine
  refuses: the inserts and the debits are never reached, and the amounts are not used.
\<close>

fun check_items :: "cart_line list \<Rightarrow> db \<Rightarrow> response option" where
  "check_items [] d = None"
| "check_items (item # rest) d =
     (case select_accessory (Some (accessory_id item)) d of
        None \<Rightarrow> Some (createError ''Accessory with ID not found'' 400)
      | Some a \<Rightarrow>
          if a_quantity a < cl_quantity item then
            Some (createError ''Insufficient stock for'' 400)
          else check_items rest d)"

definition post_bills_accessories :: "string \<Rightarrow> request \<Rightarrow> db \<Rightarrow> response \<times> db" where
  "post_bills_accessories billNumber request d =
     (case customer_id (json request) of
        None \<Rightarrow> (createError ''Customer ID and items array are required'' 400, d)
      | Some cid \<Rightarrow>
          (case items (json request) of
             None \<Rightarrow> (createError ''Customer ID and items array are required'' 400, d)
           | Some its \<Rightarrow>
               if cid = 0 \<or> length its = 0 then
                 (createError ''Customer ID and items array are required'' 400, d)
               else if cid \<notin> set (customers d) then
                 (createError ''Customer not found'' 404, d)
               else
                 (case check_items its d of
                    Some err \<Rightarrow> (err, d)
                  | None \<Rightarrow> (createError ''Failed to create accessory bill'' 500, d))))"

section \<open>The router and the role check\<close>


















section \<open>A concrete shop\<close>

text \<open>
  One part (repair price 50.00, sealing price 80.00, 10 in stock), one accessory
  (price 15.00, 20 in stock), one customer and one completed repair without usages.
\<close>

definition shop0 :: db where
  "shop0 =
     \<lparr>parts = [\<lparr>p_id = 1, p_quantity = 10, p_repair_price = 50, p_sealing_price = 80\<rparr>],
      accessories = [\<lparr>a_id = 1, a_quantity = 20, a_price = 15\<rparr>],
      customers = [1],
      repairs = [\<lparr>r_id = 1, r_customer_id = 1, r_status = ''completed''\<rparr>],
      repair_parts = [], accessory_sales = [], bills = [], bill_items = []\<rparr>"

definition no_body :: body where
  "no_body =
     \<lparr>quantity = None, operation = None, unit_price = None, part_id = None,
      quantity_used = None, pricing_mode = None, tax_rate = None, payment_method = None,
      customer_id = None, items = None\<rparr>"

definition admin :: user_claims where
  "admin = \<lparr>u_id = 7, u_role = ''admin''\<rparr>"

definition adjust_request :: "string \<Rightarrow> int \<Rightarrow> request" where
  "adjust_request opn q =
     \<lparr>params = Some [(''id'', 1)], user = Some admin,
      json = no_body\<lparr>quantity := Some q, operation := Some opn\<rparr>\<rparr>"

definition sell_request :: "int \<Rightarrow> rat \<Rightarrow> request" where
  "sell_request q up =
     \<lparr>params = Some [(''id'', 1)], user = Some admin,
      json = no_body\<lparr>quantity := Some q, unit_price := Some up\<rparr>\<rparr>"

definition add_request :: request where
  "add_request =
     \<lparr>params = Some [(''id'', 1)], user = Some admin,
      json = no_body\<lparr>part_id := Some 1, quantity_used := Some 2,
                      pricing_mode := Some ''repair''\<rparr>\<rparr>"

definition remove_request :: request where
  "remove_request =
     \<lparr>params = Some [(''id'', 1), (''part_id'', 1)], user = Some admin, json = no_body\<rparr>"

definition bill_request :: "(string \<times> int) list option \<Rightarrow> rat \<Rightarrow> request" where
  "bill_request ps rate =
     \<lparr>params = ps, user = Some admin, json = no_body\<lparr>tax_rate := Some rate\<rparr>\<rparr>"

definition cart_request :: "cart_line list \<Rightarrow> rat \<Rightarrow> request" where
  "cart_request its rate =
     \<lparr>params = None, user = Some admin,
      json = no_body\<lparr>customer_id := Some 1, items := Some its, tax_rate := Some rate\<rparr>\<rparr>"

text \<open>
  The shop in which repair 1 has one usage (two pieces of part 1 at the repair price,
  8 pieces left in stock), and the same shop with a bill for that repair.
\<close>

definition usage1 :: repair_part where
  "usage1 =
     \<lparr>rp_id = 1, rp_repair_id = 1, rp_part_id = 1, rp_quantity_used = 2,
      rp_pricing_mode = ''repair'', rp_unit_price = 50, rp_total_price = 100,
      rp_created_at = 100\<rparr>"

definition shop_used :: db where
  "shop_used =
     shop0\<lparr>parts := [\<lparr>p_id = 1, p_quantity = 8, p_repair_price = 50, p_sealing_price = 80\<rparr>],
       repair_parts := [usage1]\<rparr>"

definition shop_billed :: db where
  "shop_billed =
     shop_used\<lparr>bills :=
         [\<lparr>b_id = 1, b_repair_id = Some 1, b_customer_id = 1, b_bill_number = ''BILL-1'',
           b_subtotal = 100, b_tax_amount = 17 / 2, b_total_amount = 217 / 2,
           b_payment_status = ''pending'', b_payment_method = None, b_created_by = 7\<rparr>],
       bill_items :=
         [\<lparr>bi_bill_id = 1, bi_item_type = ''part'', bi_item_id = 1, bi_quantity = 2,
           bi_unit_price = 50, bi_total_price = 100, bi_pricing_mode = Some ''repair''\<rparr>]\<rparr>"

text \<open>A shop with a second accessory of which one piece is in stock.\<close>

definition shop_two :: db where
  "shop_two = shop0\<lparr>accessories :=
     [\<lparr>a_id = 1, a_quantity = 20, a_price = 15\<rparr>, \<lparr>a_id = 2, a_quantity = 1, a_price = 40\<rparr>]\<rparr>"

section \<open>Notions used in the statements\<close>

text \<open>The bills that reference a repair.\<close>

definition bills_of_repair :: "int \<Rightarrow> db \<Rightarrow> bill list" where
  "bills_of_repair rid d = filter (\<lambda>b. b_repair_id b = Some rid) (bills d)"

section \<open>Properties of the handlers\<close>

lemma status_createError [simp]: "status (createError m st) = st"
  by (simp add: createError_def)

lemma status_createSuccess [simp]: "status (createSuccess m) = 200"
  by (simp add: createSuccess_def)

lemma find_bill_of_repair_None:
  "find (bill_of_repair (Some rid)) bs = None \<longleftrightarrow> filter (\<lambda>b. b_repair_id b = Some rid) bs = []"
  by (induction bs) (auto simp: bill_of_repair_def)

lemma find_bill_of_repair_Some:
  "b \<in> set bs \<Longrightarrow> b_repair_id b = Some rid \<Longrightarrow> find (bill_of_repair (Some rid)) bs \<noteq> None"
  by (induction bs) (auto simp: bill_of_repair_def)

lemma post_bills_from_repair_unchanged:
  "snd (post_bills_from_repair bn request d) = d"
  by (auto simp: post_bills_from_repair_def Let_def split: option.split)

lemma check_items_status: "check_items its d = Some err \<Longrightarrow> status err = 400"
  by (induction its) (auto split: option.splits if_splits)

lemma check_items_fails:
  "item \<in> set its \<Longrightarrow>
   select_accessory (Some (accessory_id item)) d = None
   \<or> (\<exists>a. select_accessory (Some (accessory_id item)) d = Some a \<and> a_quantity a < cl_quantity item) \<Longrightarrow>
   check_items its d \<noteq> None"
  by (induction its) (auto split: option.splits)

lemma post_bills_accessories_unchanged:
  "snd (post_bills_accessories bn request d) = d"
  by (auto simp: post_bills_accessories_def split: option.split)

lemma second_bill_rejected_aux:
  assumes "params request = Some ps" and "map_of ps ''id'' = Some rid"
    and "b \<in> set (bills d)" and "b_repair_id b = Some rid"
  shows "snd (post_bills_from_repair bn request d) = d
       \<and> status (fst (post_bills_from_repair bn request d)) \<noteq> 200
       \<and> (select_repair_with_customer (Some rid) d = Some r \<and> r_status r = ''completed'' \<longrightarrow>
            fst (post_bills_from_repair bn request d) =
            createError ''Bill already exists for this repair'' 400)"
proof -
  from find_bill_of_repair_Some [OF assms(3,4)]
  obtain e where "find (bill_of_repair (Some rid)) (bills d) = Some e" by auto
  with assms(1,2) show ?thesis
    by (auto simp: post_bills_from_repair_def Let_def split: option.split)
qed



section \<open>Stock quantities\<close>

text \<open>
  Claim C1 says that after any sequence of stock-mutating operations the quantity of an
  item is never negative. The handlers do not ensure it. Evaluated on the concrete shop
  (20 accessories and 10 parts in stock): an adjustment with operation \<open>add\<close> and
  amount -25 leaves -5 accessories, and an adjustment with operation \<open>set\<close> and amount -3
  leaves -3 parts.
\<close>

theorem quantity_can_go_negative:
  "map_option a_quantity (select_accessory (Some 1)
      (snd (patch_accessories_quantity (adjust_request ''add'' (- 25)) shop0))) = Some (- 5)
   \<and> map_option p_quantity (select_part (Some 1)
      (snd (patch_parts_quantity (adjust_request ''set'' (- 3)) shop0))) = Some (- 3)"
  by (simp add: patch_accessories_quantity_def patch_parts_quantity_def adjust_request_def
      no_body_def shop0_def select_accessory_def select_part_def
      update_accessory_quantity_def update_part_quantity_def Let_def)

section \<open>Accessory sale\<close>

text \<open>
  Claim C2 says that a sale within the stock records a sale row and lowers the quantity
  by the quantity sold. The handler does not get that far: in the scenario of the
  specification (20 in stock, selling 2 at 15.00) it answers ``Failed to sell accessory''
  with status 500 and the database is as it was, without a sale row and with 20 in stock.
  The refusal of a sale beyond the stock works as the claim says: selling 25 answers
  ``Insufficient stock'' and changes nothing.
\<close>

theorem sale_stops_at_transaction:
  "post_accessories_sell (sell_request 2 15) shop0 =
     (createError ''Failed to sell accessory'' 500, shop0)
   \<and> post_accessories_sell (sell_request 25 15) shop0 =
     (createError ''Insufficient stock'' 400, shop0)"
  by (simp add: post_accessories_sell_def sell_request_def no_body_def shop0_def
      select_accessory_def Let_def)

section \<open>At most one bill for a repair\<close>

text \<open>
  Claim C3. When a bill already references the repair that the handler looks up, bill
  generation changes nothing in the database and does not succeed, and for a repair that
  is found and completed the answer is ``Bill already exists for this repair''. Moreover
  neither of the two handlers that insert bills can produce a second bill for any repair:
  a repair with at most one bill before the call has at most one bill after it.
\<close>

theorem second_bill_rejected:
  "(params request = Some ps \<and> map_of ps ''id'' = Some rid
      \<and> b \<in> set (bills d) \<and> b_repair_id b = Some rid \<longrightarrow>
        snd (post_bills_from_repair bn request d) = d
      \<and> status (fst (post_bills_from_repair bn request d)) \<noteq> 200
      \<and> (select_repair_with_customer (Some rid) d = Some r \<and> r_status r = ''completed'' \<longrightarrow>
            fst (post_bills_from_repair bn request d) =
            createError ''Bill already exists for this repair'' 400))
   \<and> (length (bills_of_repair rid' d) \<le> 1 \<longrightarrow>
        length (bills_of_repair rid' (snd (post_bills_from_repair bn request d))) \<le> 1
      \<and> length (bills_of_repair rid' (snd (post_bills_accessories bn request d))) \<le> 1)"
  using second_bill_rejected_aux [of request ps rid b d bn r]
  by (simp add: post_bills_from_repair_unchanged post_bills_accessories_unchanged)

theorem second_bill_rejected_witness:
  "snd (post_bills_from_repair ''BILL-2'' (bill_request (Some [(''id'', 1)]) (17 / 2)) shop_billed)
     = shop_billed
   \<and> fst (post_bills_from_repair ''BILL-2'' (bill_request (Some [(''id'', 1)]) (17 / 2)) shop_billed)
     = createError ''Bill already exists for this repair'' 400
   \<and> length (bills_of_repair 1 (snd (post_bills_from_repair ''BILL-1''
         (bill_request (Some [(''id'', 1)]) (17 / 2)) shop_used))) \<le> 1"
proof -
  have 1: "snd (post_bills_from_repair ''BILL-2'' (bill_request (Some [(''id'', 1)]) (17 / 2)) shop_billed)
       = shop_billed
     \<and> fst (post_bills_from_repair ''BILL-2'' (bill_request (Some [(''id'', 1)]) (17 / 2)) shop_billed)
       = createError ''Bill already exists for this repair'' 400"
    using second_bill_rejected [of "bill_request (Some [(''id'', 1)]) (17 / 2)" "[(''id'', 1)]" 1
        "\<lparr>b_id = 1, b_repair_id = Some 1, b_customer_id = 1, b_bill_number = ''BILL-1'',
           b_subtotal = 100, b_tax_amount = 17 / 2, b_total_amount = 217 / 2,
           b_payment_status = ''pending'', b_payment_method = None, b_created_by = 7\<rparr>"
        shop_billed "''BILL-2''" "\<lparr>r_id = 1, r_customer_id = 1, r_status = ''completed''\<rparr>" 1]
    by (simp add: bill_request_def shop_billed_def shop_used_def shop0_def
        select_repair_with_customer_def)
  have 2: "length (bills_of_repair 1 (snd (post_bills_from_repair ''BILL-1''
         (bill_request (Some [(''id'', 1)]) (17 / 2)) shop_used))) \<le> 1"
    using second_bill_rejected [of "bill_request (Some [(''id'', 1)]) (17 / 2)" "[(''id'', 1)]" 1
        undefined shop_used "''BILL-1''" undefined 1]
    by (simp add: bills_of_repair_def shop_used_def shop0_def)
  from 1 2 show ?thesis by simp
qed

section \<open>A cart with a line that cannot be served\<close>

text \<open>
  Claim C5. When some line of the cart names an accessory that does not exist or asks for
  more than the accessory has in stock, the handler does not succeed and returns the
  database unchanged: no bill, no bill item, no accessory sale, no change of a quantity.
  The witness is a cart of two lines whose second line asks for 5 pieces of an accessory
  with 1 in stock.
\<close>

theorem cart_with_bad_line_changes_nothing:
  assumes "items (json request) = Some its" and "item \<in> set its"
    and "select_accessory (Some (accessory_id item)) d = None
         \<or> (\<exists>a. select_accessory (Some (accessory_id item)) d = Some a
                \<and> a_quantity a < cl_quantity item)"
  shows "snd (post_bills_accessories bn request d) = d
       \<and> status (fst (post_bills_accessories bn request d)) \<noteq> 200"
proof -
  from check_items_fails [OF assms(2,3)] obtain err where
    err: "check_items its d = Some err" by auto
  from check_items_status [OF err] err assms(1) show ?thesis
    by (auto simp: post_bills_accessories_def Let_def split: option.split)
qed

theorem cart_with_bad_line_changes_nothing_witness:
  "select_accessory (Some 2) shop_two = Some \<lparr>a_id = 2, a_quantity = 1, a_price = 40\<rparr>
   \<and> snd (post_bills_accessories ''BILL-1''
        (cart_request [\<lparr>accessory_id = 1, cl_quantity = 2\<rparr>,
                       \<lparr>accessory_id = 2, cl_quantity = 5\<rparr>] (17 / 2)) shop_two) = shop_two
   \<and> status (fst (post_bills_accessories ''BILL-1''
        (cart_request [\<lparr>accessory_id = 1, cl_quantity = 2\<rparr>,
                       \<lparr>accessory_id = 2, cl_quantity = 5\<rparr>] (17 / 2)) shop_two)) \<noteq> 200"
proof -
  have sel: "select_accessory (Some 2) shop_two = Some \<lparr>a_id = 2, a_quantity = 1, a_price = 40\<rparr>"
    by (simp add: select_accessory_def shop_two_def)
  show ?thesis
    using cart_with_bad_line_changes_nothing [of
        "cart_request [\<lparr>accessory_id = 1, cl_quantity = 2\<rparr>,
                       \<lparr>accessory_id = 2, cl_quantity = 5\<rparr>] (17 / 2)"
        "[\<lparr>accessory_id = 1, cl_quantity = 2\<rparr>, \<lparr>accessory_id = 2, cl_quantity = 5\<rparr>]"
        "\<lparr>accessory_id = 2, cl_quantity = 5\<rparr>" shop_two "''BILL-1''"] sel
    by (simp add: cart_request_def no_body_def)
qed

section \<open>The endpoint of bill generation\<close>




section \<open>Removing a part from a repair\<close>

text \<open>
  Claim C7 says that removing a part deletes the most recent usage and credits its
  quantity back. The handler does not get that far: on the shop in which repair 1 has one
  usage of part 1 (2 pieces, 8 left in stock) it finds the usage and then answers
  ``Failed to remove part from repair'' with status 500; the usage is still there and the
  stock is still 8. Besides, the usage selected for removal is not always the most recent
  one: of two usages recorded in the same second the selection returns the one recorded
  first.
\<close>

theorem remove_part_stops_at_transaction:
  "delete_repairs_parts remove_request shop_used =
     (createError ''Failed to remove part from repair'' 500, shop_used)
   \<and> most_recent [usage1, usage1\<lparr>rp_id := 2, rp_quantity_used := 3\<rparr>] = Some usage1"
  by (simp add: delete_repairs_parts_def remove_request_def shop_used_def shop0_def
      usage1_def usage_matches_def)

section \<open>Adding a part to a repair and billing the repair\<close>

text \<open>
  Claim C8 says that adding 2 pieces of the part in mode repair records a usage of 100.00
  and leaves 8 in stock, and that the bill of the repair then has subtotal 100.00, tax
  8.50 and total 108.50. Neither handler gets that far. On the shop of the scenario the
  addition answers ``Failed to add part to repair'' with status 500 and leaves the
  database as it was, without a usage and with 10 in stock. On the shop in which the usage
  is recorded, bill generation for the repair answers ``Failed to generate bill'' with
  status 500 and creates no bill.
\<close>

theorem add_part_and_bill_stop_at_transaction:
  "post_repairs_parts add_request shop0 =
     (createError ''Failed to add part to repair'' 500, shop0)
   \<and> post_bills_from_repair ''BILL-1'' (bill_request (Some [(''id'', 1)]) (17 / 2)) shop_used =
     (createError ''Failed to generate bill'' 500, shop_used)"
  by (simp add: post_repairs_parts_def post_bills_from_repair_def add_request_def
      bill_request_def no_body_def shop_used_def shop0_def usage1_def select_repair_def
      select_part_def select_repair_with_customer_def select_repair_parts_def
      bill_of_repair_def Let_def)

section \<open>A repair without usages\<close>

text \<open>
  Claim C9. When no usage is recorded for the repair that the handler looks up, bill
  generation does not succeed and changes nothing in the database; for a repair that is
  found, completed and not yet billed the answer is ``No parts found for this
  repair''.
\<close>

theorem bill_without_usages_rejected:
  assumes "params request = Some ps" and "map_of ps ''id'' = Some rid"
    and "\<forall>u \<in> set (repair_parts d). rp_repair_id u \<noteq> rid"
  shows "snd (post_bills_from_repair bn request d) = d
       \<and> status (fst (post_bills_from_repair bn request d)) \<noteq> 200
       \<and> (select_repair_with_customer (Some rid) d = Some r \<and> r_status r = ''completed''
            \<and> bills_of_repair rid d = [] \<longrightarrow>
            fst (post_bills_from_repair bn request d) =
            createError ''No parts found for this repair'' 400)"
proof -
  from assms(3) have "select_repair_parts (Some rid) d = []"
    by (auto simp: select_repair_parts_def filter_empty_conv)
  with assms(1,2) show ?thesis
    by (auto simp: post_bills_from_repair_def Let_def bills_of_repair_def
        find_bill_of_repair_None [symmetric] split: option.split)
qed

theorem bill_without_usages_rejected_witness:
  "post_bills_from_repair ''BILL-1'' (bill_request (Some [(''id'', 1)]) (17 / 2)) shop0 =
     (createError ''No parts found for this repair'' 400, shop0)"
proof -
  have "snd (post_bills_from_repair ''BILL-1'' (bill_request (Some [(''id'', 1)]) (17 / 2)) shop0)
          = shop0
      \<and> fst (post_bills_from_repair ''BILL-1'' (bill_request (Some [(''id'', 1)]) (17 / 2)) shop0)
          = createError ''No parts found for this repair'' 400"
    using bill_without_usages_rejected [of "bill_request (Some [(''id'', 1)]) (17 / 2)"
        "[(''id'', 1)]" 1 shop0 "''BILL-1''"
        "\<lparr>r_id = 1, r_customer_id = 1, r_status = ''completed''\<rparr>"]
    by (simp add: bill_request_def shop0_def select_repair_with_customer_def
        bills_of_repair_def)
  then show ?thesis by (simp add: prod_eq_iff)
qed

section \<open>Quantity adjustment with mode subtract\<close>

text \<open>
  Claim C10 says that subtract leaves the larger of zero and the quantity less the amount.
  The handlers attempt that floor with \<^verbatim>\<open>GREATEST(0, quantity - ?)\<close>, a function the
  engine does not have: with 20 accessories and 10 parts in stock, subtracting 25 answers
  ``Failed to update ... quantity'' with status 500 and leaves 20 and 10 in stock, not 0,
  and subtracting 5 from the accessories leaves 20, not 15.
\<close>

theorem subtract_is_refused:
  "patch_accessories_quantity (adjust_request ''subtract'' 25) shop0 =
     (createError ''Failed to update accessory quantity'' 500, shop0)
   \<and> patch_parts_quantity (adjust_request ''subtract'' 25) shop0 =
     (createError ''Failed to update part quantity'' 500, shop0)
   \<and> patch_accessories_quantity (adjust_request ''subtract'' 5) shop0 =
     (createError ''Failed to update accessory quantity'' 500, shop0)
   \<and> map_option a_quantity (select_accessory (Some 1)
        (snd (patch_accessories_quantity (adjust_request ''subtract'' 25) shop0))) = Some 20"
  by (simp add: patch_accessories_quantity_def patch_parts_quantity_def adjust_request_def
      no_body_def shop0_def select_accessory_def Let_def)

end
